theory Spec2Isabelle
  imports Main
begin

section \<open>Data model\<close>

text \<open>
  The catalog server (\<^verbatim>\<open>src/server.js\<close>, lines 1-205) keeps one collection of Product
  documents, each embedding its list of Variant sub-documents (\<^verbatim>\<open>variantSchema\<close>, lines
  16-22; \<^verbatim>\<open>productSchema\<close>, lines 25-39). The type \<open>'oid\<close> is the driver's ObjectId.
  A field of a sub-document that the schema marks \<^verbatim>\<open>required\<close> can still be absent in a
  stored document, because the update routes do not run the schema's validators; such
  fields are options. \<^verbatim>\<open>Number\<close> fields are modelled as integers (the data model's stock is
  an integer) and \<^verbatim>\<open>Date\<close> fields as natural numbers (milliseconds).
\<close>

record 'oid variant =
  v_id :: 'oid
  color :: "string option"
  size_v :: "string option"
  stock :: "int option"
  sku :: "string option"
  price_adjustment :: int

record 'oid product =
  p_id :: 'oid
  name :: string
  description :: string
  base_price :: int
  category :: string
  brand :: string
  variants :: "'oid variant list"
  tags :: "string list"
  created_at :: nat
  updated_at :: nat

text \<open>The collection, in the store's natural (insertion) order.\<close>

type_synonym 'oid collection = "'oid product list"

text \<open>The body of a request that carries a Variant: any field may be missing.\<close>

record variant_draft =
  d_color :: "string option"
  d_size :: "string option"
  d_stock :: "int option"
  d_sku :: "string option"
  d_price_adjustment :: "int option"

text \<open>
  What a handler sends back: the HTTP status and the JSON body. \<open>ErrorMessage\<close> is the
  body \<^verbatim>\<open>{ error: error.message }\<close> of a \<^verbatim>\<open>catch\<close> branch, whose text is the driver's:
  a path parameter that is not the text of an ObjectId (\<open>CastError\<close>), or a write that the
  store's unique index refuses (\<open>DuplicateKey\<close>).
\<close>

datatype driver_error = CastError | DuplicateKey

datatype 'oid body =
    Message string
  | Error string
  | ErrorMessage driver_error
  | ProductDoc "'oid product"
  | ProductDocs "'oid product list"

record 'oid response =
  status :: nat
  body :: "'oid body"

section \<open>The store's update contract\<close>

text \<open>
  The schema's \<^verbatim>\<open>unique: true\<close> on \<^verbatim>\<open>sku\<close> (line 20) declares a unique index of the
  collection on the path \<^verbatim>\<open>variants.sku\<close>. A document's keys in that index are the skus
  of its variants, with the key null (\<open>None\<close>) for a variant that has no sku and for a
  document whose variant list is empty.
\<close>

definition index_keys :: "'oid product \<Rightarrow> string option list" where
  "index_keys p = (if variants p = [] then [None] else map sku (variants p))"

text \<open>
  The index holds of a collection when no key belongs to two documents; one document
  may carry a key more than once.
\<close>

definition index_holds :: "'oid collection \<Rightarrow> bool" where
  "index_holds st = distinct (concat (map (\<lambda>p. remdups (index_keys p)) st))"

text \<open>
  A built index refuses the write that turns the document \<open>d\<close> into \<open>d'\<close> when \<open>d'\<close> has
  a key that \<open>d\<close> had not and that one of the other documents carries.
\<close>

definition duplicate_key :: "'oid collection \<Rightarrow> 'oid product \<Rightarrow> 'oid product \<Rightarrow> bool" where
  "duplicate_key others d d' =
     list_ex (\<lambda>k. k \<notin> set (index_keys d) \<and> list_ex (\<lambda>q. k \<in> set (index_keys q)) others)
       (index_keys d')"

text \<open>
  The store's write of one document: \<open>upd\<close> is applied to the first document, in the
  store's order, that satisfies \<open>flt\<close>, and to no other. \<open>seen\<close> holds the documents
  already passed. \<open>indexed\<close> says whether the declared index is built on the collection
  (it is not when the build failed or was switched off); a refused write throws and
  leaves the collection as it was. The result gives the matched document before and
  after the write.
\<close>

fun write_first ::
  "bool \<Rightarrow> ('oid product \<Rightarrow> bool) \<Rightarrow> ('oid product \<Rightarrow> 'oid product) \<Rightarrow>
   'oid collection \<Rightarrow> 'oid collection \<Rightarrow>
   driver_error + (('oid product \<times> 'oid product) option \<times> 'oid collection)" where
  "write_first indexed flt upd seen [] = Inr (None, seen)"
| "write_first indexed flt upd seen (d # ds) =
     (if flt d
      then (if indexed \<and> duplicate_key (seen @ ds) d (upd d) then Inl DuplicateKey
            else Inr (Some (d, upd d), seen @ upd d # ds))
      else write_first indexed flt upd (seen @ [d]) ds)"

text \<open>
  \<^verbatim>\<open>Model.updateOne(filter, update)\<close>: its result reports \<open>matchedCount\<close> (0 or 1) and
  \<open>modifiedCount\<close>, which is 0 when nothing matched and also when the update left the
  matched document as it was.
\<close>

record update_result =
  matchedCount :: nat
  modifiedCount :: nat

definition updateOne ::
  "bool \<Rightarrow> ('oid product \<Rightarrow> bool) \<Rightarrow> ('oid product \<Rightarrow> 'oid product) \<Rightarrow> 'oid collection \<Rightarrow>
   driver_error + (update_result \<times> 'oid collection)" where
  "updateOne indexed flt upd st =
     (case write_first indexed flt upd [] st of
        Inl e \<Rightarrow> Inl e
      | Inr (None, st') \<Rightarrow> Inr (\<lparr>matchedCount = 0, modifiedCount = 0\<rparr>, st')
      | Inr (Some (d, d'), st') \<Rightarrow>
          Inr (\<lparr>matchedCount = 1, modifiedCount = (if d' = d then 0 else 1)\<rparr>, st'))"

text \<open>
  \<^verbatim>\<open>Model.findByIdAndUpdate(id, update, { new: true })\<close>: the same write, returning the
  document as updated, or nothing when no document matched.
\<close>

definition findOneAndUpdate ::
  "bool \<Rightarrow> ('oid product \<Rightarrow> bool) \<Rightarrow> ('oid product \<Rightarrow> 'oid product) \<Rightarrow> 'oid collection \<Rightarrow>
   driver_error + ('oid product option \<times> 'oid collection)" where
  "findOneAndUpdate indexed flt upd st =
     (case write_first indexed flt upd [] st of
        Inl e \<Rightarrow> Inl e
      | Inr (None, st') \<Rightarrow> Inr (None, st')
      | Inr (Some (d, d'), st') \<Rightarrow> Inr (Some d', st'))"

text \<open>The filter \<^verbatim>\<open>{ 'variants.sku': s }\<close>: some element of the embedded list has sku \<open>s\<close>.\<close>

definition has_sku :: "string \<Rightarrow> 'oid product \<Rightarrow> bool" where
  "has_sku s p = list_ex (\<lambda>v. sku v = Some s) (variants p)"

text \<open>
  The update \<^verbatim>\<open>{ $set: { 'variants.$.stock': n } }\<close>: the positional operator stands for
  the first element of the list that the filter matched.
\<close>

fun set_positional_stock :: "string \<Rightarrow> int \<Rightarrow> 'oid variant list \<Rightarrow> 'oid variant list" where
  "set_positional_stock s n [] = []"
| "set_positional_stock s n (v # vs) =
     (if sku v = Some s then v\<lparr>stock := Some n\<rparr> # vs
      else v # set_positional_stock s n vs)"

text \<open>The update \<^verbatim>\<open>{ $pull: { variants: { sku: s } } }\<close>: every element with sku \<open>s\<close> goes.\<close>

definition pull_sku :: "string \<Rightarrow> 'oid variant list \<Rightarrow> 'oid variant list" where
  "pull_sku s vs = filter (\<lambda>v. sku v \<noteq> Some s) vs"

text \<open>
  The update \<^verbatim>\<open>{ $push: { variants: req.body } }\<close>: the body is cast to the sub-document
  schema (a generated \<^verbatim>\<open>_id\<close>, the default of \<^verbatim>\<open>price_adjustment\<close>) and appended.
\<close>

definition cast_variant :: "'oid \<Rightarrow> variant_draft \<Rightarrow> 'oid variant" where
  "cast_variant oid d =
     \<lparr>v_id = oid, color = d_color d, size_v = d_size d, stock = d_stock d, sku = d_sku d,
      price_adjustment = (case d_price_adjustment d of None \<Rightarrow> 0 | Some a \<Rightarrow> a)\<rparr>"

section \<open>The routes\<close>

text \<open>
  Every route that writes takes \<open>indexed\<close>, the state of the store's index, first. Its
  \<^verbatim>\<open>try\<close> block is the \<open>Inr\<close> branch and its \<^verbatim>\<open>catch\<close> block the \<open>Inl\<close> branch.

  \<^verbatim>\<open>PATCH /products/variants/:sku/stock\<close> (lines 135-151). The body's \<^verbatim>\<open>stock\<close> is taken
  as a number.
\<close>

definition updateVariantStock ::
  "bool \<Rightarrow> string \<Rightarrow> int \<Rightarrow> 'oid collection \<Rightarrow> 'oid response \<times> 'oid collection" where
  "updateVariantStock indexed s n st =
     (case updateOne indexed (has_sku s)
             (\<lambda>p. p\<lparr>variants := set_positional_stock s n (variants p)\<rparr>) st of
        Inr (result, st') \<Rightarrow>
          if modifiedCount result = 0
          then (\<lparr>status = 404, body = Error ''Variant not found''\<rparr>, st')
          else (\<lparr>status = 200, body = Message ''Variant stock updated successfully''\<rparr>, st')
      | Inl error \<Rightarrow> (\<lparr>status = 400, body = ErrorMessage error\<rparr>, st))"

text \<open>
  \<^verbatim>\<open>POST /products/:id/variants\<close> (lines 154-169). \<open>castObjectId\<close> is the driver's cast
  of the path parameter to an ObjectId (\<open>None\<close>: the cast throws, and the \<^verbatim>\<open>catch\<close>
  branch answers); \<open>newid\<close> is the ObjectId generated for the new sub-document.
\<close>

definition addVariant ::
  "bool \<Rightarrow> (string \<Rightarrow> 'oid option) \<Rightarrow> 'oid \<Rightarrow> string \<Rightarrow> variant_draft \<Rightarrow> 'oid collection \<Rightarrow>
   'oid response \<times> 'oid collection" where
  "addVariant indexed castObjectId newid pid d st =
     (case castObjectId pid of
        None \<Rightarrow> (\<lparr>status = 400, body = ErrorMessage CastError\<rparr>, st)
      | Some oid \<Rightarrow>
          (case updateOne indexed (\<lambda>p. p_id p = oid)
                  (\<lambda>p. p\<lparr>variants := variants p @ [cast_variant newid d]\<rparr>) st of
             Inr (result, st') \<Rightarrow>
               if modifiedCount result = 0
               then (\<lparr>status = 404, body = Error ''Product not found''\<rparr>, st')
               else (\<lparr>status = 201, body = Message ''Variant added successfully''\<rparr>, st')
           | Inl error \<Rightarrow> (\<lparr>status = 400, body = ErrorMessage error\<rparr>, st)))"

text \<open>\<^verbatim>\<open>DELETE /products/variants/:sku\<close> (lines 185-200); its \<^verbatim>\<open>catch\<close> block answers 500.\<close>

definition removeVariantBySku ::
  "bool \<Rightarrow> string \<Rightarrow> 'oid collection \<Rightarrow> 'oid response \<times> 'oid collection" where
  "removeVariantBySku indexed s st =
     (case updateOne indexed (has_sku s) (\<lambda>p. p\<lparr>variants := pull_sku s (variants p)\<rparr>) st of
        Inr (result, st') \<Rightarrow>
          if modifiedCount result = 0
          then (\<lparr>status = 404, body = Error ''Variant not found''\<rparr>, st')
          else (\<lparr>status = 200, body = Message ''Variant deleted successfully''\<rparr>, st')
      | Inl error \<Rightarrow> (\<lparr>status = 500, body = ErrorMessage error\<rparr>, st))"

text \<open>
  \<^verbatim>\<open>GET /products/:id\<close> (lines 109-119): \<^verbatim>\<open>findById\<close> casts the id, and a cast that
  throws is answered by the \<^verbatim>\<open>catch\<close> branch of this route, with status 500.
\<close>

definition getById :: "(string \<Rightarrow> 'oid option) \<Rightarrow> string \<Rightarrow> 'oid collection \<Rightarrow> 'oid response" where
  "getById castObjectId pid st =
     (case castObjectId pid of
        None \<Rightarrow> \<lparr>status = 500, body = ErrorMessage CastError\<rparr>
      | Some oid \<Rightarrow>
          (case find (\<lambda>p. p_id p = oid) st of
             None \<Rightarrow> \<lparr>status = 404, body = Error ''Product not found''\<rparr>
           | Some p \<Rightarrow> \<lparr>status = 200, body = ProductDoc p\<rparr>))"

text \<open>\<^verbatim>\<open>GET /products\<close> (lines 62-69): \<^verbatim>\<open>Product.find()\<close> with no filter.\<close>

definition list_products :: "'oid collection \<Rightarrow> 'oid response" where
  "list_products st = \<lparr>status = 200, body = ProductDocs st\<rparr>"

text \<open>
  \<^verbatim>\<open>PUT /products/:id\<close> (lines 122-132): \<^verbatim>\<open>findByIdAndUpdate(id, req.body, { new: true })\<close>
  sets the top-level fields that the body carries on the first document with that id
  and returns the document as updated. A \<^verbatim>\<open>variants\<close> field of the body, given here as
  the sub-documents it is cast to, replaces the embedded list as a whole.
\<close>

record 'oid product_update =
  u_name :: "string option"
  u_description :: "string option"
  u_base_price :: "int option"
  u_category :: "string option"
  u_brand :: "string option"
  u_variants :: "'oid variant list option"
  u_tags :: "string list option"
  u_created_at :: "nat option"
  u_updated_at :: "nat option"

definition set_fields :: "'oid product_update \<Rightarrow> 'oid product \<Rightarrow> 'oid product" where
  "set_fields u p =
     p\<lparr>name := (case u_name u of None \<Rightarrow> name p | Some x \<Rightarrow> x),
       description := (case u_description u of None \<Rightarrow> description p | Some x \<Rightarrow> x),
       base_price := (case u_base_price u of None \<Rightarrow> base_price p | Some x \<Rightarrow> x),
       category := (case u_category u of None \<Rightarrow> category p | Some x \<Rightarrow> x),
       brand := (case u_brand u of None \<Rightarrow> brand p | Some x \<Rightarrow> x),
       variants := (case u_variants u of None \<Rightarrow> variants p | Some x \<Rightarrow> x),
       tags := (case u_tags u of None \<Rightarrow> tags p | Some x \<Rightarrow> x),
       created_at := (case u_created_at u of None \<Rightarrow> created_at p | Some x \<Rightarrow> x),
       updated_at := (case u_updated_at u of None \<Rightarrow> updated_at p | Some x \<Rightarrow> x)\<rparr>"

definition updateProduct ::
  "bool \<Rightarrow> (string \<Rightarrow> 'oid option) \<Rightarrow> string \<Rightarrow> 'oid product_update \<Rightarrow> 'oid collection \<Rightarrow>
   'oid response \<times> 'oid collection" where
  "updateProduct indexed castObjectId pid u st =
     (case castObjectId pid of
        None \<Rightarrow> (\<lparr>status = 400, body = ErrorMessage CastError\<rparr>, st)
      | Some oid \<Rightarrow>
          (case findOneAndUpdate indexed (\<lambda>p. p_id p = oid) (set_fields u) st of
             Inr (None, st') \<Rightarrow> (\<lparr>status = 404, body = Error ''Product not found''\<rparr>, st')
           | Inr (Some p, st') \<Rightarrow> (\<lparr>status = 200, body = ProductDoc p\<rparr>, st')
           | Inl error \<Rightarrow> (\<lparr>status = 400, body = ErrorMessage error\<rparr>, st)))"

section \<open>The minimal variant of the server\<close>

text \<open>
  The second server of the file (lines 206-382) has a smaller schema (lines 227-238) and
  a list of sample products (lines 245-273). A document is given as its JSON rendering
  has it: the sample entries are plain objects, with no \<^verbatim>\<open>_id\<close> and no timestamps.
\<close>

record min_variant =
  mv_color :: "string option"
  mv_size :: "string option"
  mv_stock :: int

record 'oid min_product =
  m_id :: "'oid option"
  m_name :: string
  m_price :: int
  m_category :: string
  m_variants :: "min_variant list"
  createdAt :: "nat option"
  updatedAt :: "nat option"

definition sampleProducts :: "'oid min_product list" where
  "sampleProducts =
     [\<lparr>m_id = None, m_name = ''T-Shirt'', m_price = 25, m_category = ''Clothing'',
       m_variants =
         [\<lparr>mv_color = Some ''Red'', mv_size = Some ''M'', mv_stock = 10\<rparr>,
          \<lparr>mv_color = Some ''Blue'', mv_size = Some ''L'', mv_stock = 5\<rparr>],
       createdAt = None, updatedAt = None\<rparr>,
      \<lparr>m_id = None, m_name = ''Laptop'', m_price = 1200, m_category = ''Electronics'',
       m_variants =
         [\<lparr>mv_color = Some ''Silver'', mv_size = Some ''15-inch'', mv_stock = 7\<rparr>,
          \<lparr>mv_color = Some ''Black'', mv_size = Some ''13-inch'', mv_stock = 3\<rparr>],
       createdAt = None, updatedAt = None\<rparr>,
      \<lparr>m_id = None, m_name = ''Sneakers'', m_price = 80, m_category = ''Footwear'',
       m_variants =
         [\<lparr>mv_color = Some ''White'', mv_size = Some ''42'', mv_stock = 15\<rparr>,
          \<lparr>mv_color = Some ''Black'', mv_size = Some ''40'', mv_stock = 8\<rparr>],
       createdAt = None, updatedAt = None\<rparr>]"

datatype 'oid min_body =
    MinError string
  | MinProducts "'oid min_product list"
  | MinVariants "min_variant list"

record 'oid min_response =
  min_status :: nat
  min_body :: "'oid min_body"

text \<open>
  \<^verbatim>\<open>GET /products\<close> of the minimal variant (lines 280-287):
  \<^verbatim>\<open>res.json(products.length ? products : sampleProducts)\<close>.
\<close>

definition list_products_minimal :: "'oid min_product list \<Rightarrow> 'oid min_response" where
  "list_products_minimal st =
     \<lparr>min_status = 200,
      min_body = MinProducts (if length st \<noteq> 0 then st else sampleProducts)\<rparr>"

text \<open>
  \<^verbatim>\<open>GET /products/:id/variants\<close> of the minimal variant (lines 300-308): here the
  \<^verbatim>\<open>catch\<close> branch answers a cast that throws with status 400.
\<close>

definition getVariants ::
  "(string \<Rightarrow> 'oid option) \<Rightarrow> string \<Rightarrow> 'oid min_product list \<Rightarrow> 'oid min_response" where
  "getVariants castObjectId pid st =
     (case castObjectId pid of
        None \<Rightarrow> \<lparr>min_status = 400, min_body = MinError ''Invalid product ID''\<rparr>
      | Some oid \<Rightarrow>
          (case find (\<lambda>p. m_id p = Some oid) st of
             None \<Rightarrow> \<lparr>min_status = 404, min_body = MinError ''Product not found''\<rparr>
           | Some p \<Rightarrow> \<lparr>min_status = 200, min_body = MinVariants (m_variants p)\<rparr>))"

section \<open>Store predicates\<close>

definition all_skus :: "'oid collection \<Rightarrow> string option list" where
  "all_skus st = concat (map (\<lambda>p. map sku (variants p)) st)"

definition sku_count :: "string \<Rightarrow> 'oid collection \<Rightarrow> nat" where
  "sku_count s st = length (filter (\<lambda>k. k = Some s) (all_skus st))"

definition sku_unique :: "'oid collection \<Rightarrow> bool" where
  "sku_unique st = distinct (all_skus st)"

definition sku_in_store :: "string \<Rightarrow> 'oid collection \<Rightarrow> bool" where
  "sku_in_store s st = list_ex (has_sku s) st"

section \<open>A worked catalog\<close>

text \<open>
  An instance of the ObjectId cast for the worked examples: the textual form of an
  ObjectId is 24 hexadecimal digits, read without regard to case.
\<close>

definition hex_digit :: "char \<Rightarrow> char option" where
  "hex_digit c =
     (if c \<in> set ''0123456789abcdef'' then Some c else map_of (zip ''ABCDEF'' ''abcdef'') c)"

definition oid24 :: "string \<Rightarrow> string option" where
  "oid24 s =
     (if length s = 24 \<and> list_all (\<lambda>c. hex_digit c \<noteq> None) s
      then Some (map (\<lambda>c. case hex_digit c of Some h \<Rightarrow> h | None \<Rightarrow> c) s) else None)"

text \<open>The product of the specification's example, with a second variant and a second product.\<close>

definition red_m :: "string variant" where
  "red_m = \<lparr>v_id = ''64b0000000000000000000a1'', color = Some ''Red'', size_v = Some ''M'',
            stock = Some 10, sku = Some ''TS-RED-M'', price_adjustment = 0\<rparr>"

definition blue_l :: "string variant" where
  "blue_l = \<lparr>v_id = ''64b0000000000000000000a2'', color = Some ''Blue'', size_v = Some ''L'',
             stock = Some 5, sku = Some ''TS-BLUE-L'', price_adjustment = 2\<rparr>"

definition silver_15 :: "string variant" where
  "silver_15 = \<lparr>v_id = ''64b0000000000000000000a3'', color = Some ''Silver'',
                size_v = Some ''15-inch'', stock = Some 7, sku = Some ''LT-SILVER-15'',
                price_adjustment = 0\<rparr>"

definition tshirt :: "string product" where
  "tshirt = \<lparr>p_id = ''64b000000000000000000001'', name = ''T-Shirt'',
             description = ''Cotton shirt'', base_price = 25, category = ''Clothing'',
             brand = ''Acme'', variants = [red_m, blue_l], tags = [''summer''],
             created_at = 1000, updated_at = 1000\<rparr>"

definition laptop :: "string product" where
  "laptop = \<lparr>p_id = ''64b000000000000000000002'', name = ''Laptop'',
             description = ''Thin laptop'', base_price = 1200, category = ''Electronics'',
             brand = ''Acme'', variants = [silver_15], tags = [],
             created_at = 2000, updated_at = 2000\<rparr>"

definition catalog :: "string collection" where
  "catalog = [tshirt, laptop]"

text \<open>A draft with every required field and a fresh sku, and two drafts that break the schema.\<close>

definition green_s :: variant_draft where
  "green_s = \<lparr>d_color = Some ''Green'', d_size = Some ''S'', d_stock = Some 4,
              d_sku = Some ''TS-GREEN-S'', d_price_adjustment = None\<rparr>"

definition no_color_draft :: variant_draft where
  "no_color_draft = \<lparr>d_color = None, d_size = Some ''S'', d_stock = Some 4,
                     d_sku = Some ''TS-NONE-S'', d_price_adjustment = None\<rparr>"

definition taken_sku_draft :: variant_draft where
  "taken_sku_draft = \<lparr>d_color = Some ''Red'', d_size = Some ''XL'', d_stock = Some 1,
                      d_sku = Some ''TS-RED-M'', d_price_adjustment = None\<rparr>"

text \<open>A product with two variants of one sku, as the update routes can leave it.\<close>

definition twice_red :: "string product" where
  "twice_red = tshirt\<lparr>variants := [red_m, blue_l, cast_variant ''64b0000000000000000000a9'' taken_sku_draft]\<rparr>"



definition laptop_red :: "string product" where
  "laptop_red = laptop\<lparr>variants := [silver_15, cast_variant ''64b0000000000000000000a8'' taken_sku_draft]\<rparr>"


text \<open>A stored document of the minimal variant.\<close>

definition mug :: "string min_product" where
  "mug = \<lparr>m_id = Some ''64b000000000000000000003'', m_name = ''Mug'', m_price = 8,
          m_category = ''Home'',
          m_variants = [\<lparr>mv_color = Some ''White'', mv_size = None, mv_stock = 12\<rparr>],
          createdAt = Some 3000, updatedAt = Some 3000\<rparr>"

text \<open>A request body for the update route that renames a product and carries no timestamp.\<close>

definition rename_tee :: "string product_update" where
  "rename_tee = \<lparr>u_name = Some ''Tee'', u_description = None, u_base_price = None,
                 u_category = None, u_brand = None, u_variants = None, u_tags = None,
                 u_created_at = None, u_updated_at = None\<rparr>"

section \<open>Facts about the update contract\<close>

lemma write_first_no_match:
  "\<not> list_ex flt ds \<Longrightarrow> write_first indexed flt upd seen ds = Inr (None, seen @ ds)"
  by (induction ds arbitrary: seen) auto

lemma write_first_first_match:
  "\<forall>q\<in>set pre. \<not> flt q \<Longrightarrow> flt d \<Longrightarrow>
   write_first indexed flt upd seen (pre @ d # post) =
     (if indexed \<and> duplicate_key (seen @ pre @ post) d (upd d) then Inl DuplicateKey
      else Inr (Some (d, upd d), seen @ pre @ upd d # post))"
  by (induction pre arbitrary: seen) auto

lemma updateOne_no_match:
  "\<not> list_ex flt ds \<Longrightarrow>
   updateOne indexed flt upd ds = Inr (\<lparr>matchedCount = 0, modifiedCount = 0\<rparr>, ds)"
  by (simp add: updateOne_def write_first_no_match)

lemma updateOne_first_match:
  "\<forall>q\<in>set pre. \<not> flt q \<Longrightarrow> flt d \<Longrightarrow>
   updateOne indexed flt upd (pre @ d # post) =
     (if indexed \<and> duplicate_key (pre @ post) d (upd d) then Inl DuplicateKey
      else Inr (\<lparr>matchedCount = 1, modifiedCount = (if upd d = d then 0 else 1)\<rparr>,
                pre @ upd d # post))"
  by (simp add: updateOne_def write_first_first_match)

lemma findOneAndUpdate_no_match:
  "\<not> list_ex flt ds \<Longrightarrow> findOneAndUpdate indexed flt upd ds = Inr (None, ds)"
  by (simp add: findOneAndUpdate_def write_first_no_match)

lemma findOneAndUpdate_first_match:
  "\<forall>q\<in>set pre. \<not> flt q \<Longrightarrow> flt d \<Longrightarrow>
   findOneAndUpdate indexed flt upd (pre @ d # post) =
     (if indexed \<and> duplicate_key (pre @ post) d (upd d) then Inl DuplicateKey
      else Inr (Some (upd d), pre @ upd d # post))"
  by (simp add: findOneAndUpdate_def write_first_first_match)

text \<open>A write either leaves the collection alone or rewrites one document in place.\<close>

lemma first_match_split:
  assumes "list_ex flt st"
  obtains pre d post where "st = pre @ d # post" "\<forall>q\<in>set pre. \<not> flt q" "flt d"
  using assms split_list_first_prop [of st flt] by (auto simp: list_ex_iff)

lemma updateOne_keeps:
  assumes "\<And>d. f (upd d) = f d" "updateOne indexed flt upd st = Inr (r, st')"
  shows "map f st' = map f st"
proof (cases "list_ex flt st")
  case False
  with assms(2) show ?thesis by (simp add: updateOne_no_match)
next
  case True
  then obtain pre d post where "st = pre @ d # post" "\<forall>q\<in>set pre. \<not> flt q" "flt d"
    by (rule first_match_split)
  with assms show ?thesis by (auto simp: updateOne_first_match split: if_splits)
qed

lemma findOneAndUpdate_keeps:
  assumes "\<And>d. f (upd d) = f d" "findOneAndUpdate indexed flt upd st = Inr (r, st')"
  shows "map f st' = map f st"
proof (cases "list_ex flt st")
  case False
  with assms(2) show ?thesis by (simp add: findOneAndUpdate_no_match)
next
  case True
  then obtain pre d post where "st = pre @ d # post" "\<forall>q\<in>set pre. \<not> flt q" "flt d"
    by (rule first_match_split)
  with assms show ?thesis by (auto simp: findOneAndUpdate_first_match split: if_splits)
qed

lemma findOneAndUpdate_Some:
  assumes "findOneAndUpdate indexed flt upd st = Inr (Some d', st')"
  shows "\<exists>d\<in>set st. flt d \<and> d' = upd d"
proof (cases "list_ex flt st")
  case False
  with assms show ?thesis by (simp add: findOneAndUpdate_no_match)
next
  case True
  then obtain pre d post where "st = pre @ d # post" "\<forall>q\<in>set pre. \<not> flt q" "flt d"
    by (rule first_match_split)
  with assms show ?thesis by (auto simp: findOneAndUpdate_first_match split: if_splits)
qed

text \<open>The index: which writes it refuses.\<close>

lemma duplicate_key_iff:
  "duplicate_key others d d' \<longleftrightarrow>
     (\<exists>k\<in>set (index_keys d'). k \<notin> set (index_keys d) \<and> (\<exists>q\<in>set others. k \<in> set (index_keys q)))"
  by (simp add: duplicate_key_def list_ex_iff)

lemma no_new_key:
  "set (index_keys d') \<subseteq> set (index_keys d) \<Longrightarrow> \<not> duplicate_key others d d'"
  by (auto simp: duplicate_key_iff)

lemma has_sku_iff: "has_sku s p \<longleftrightarrow> (\<exists>v\<in>set (variants p). sku v = Some s)"
  by (simp add: has_sku_def list_ex_iff)

lemma index_keys_has_sku: "Some s \<in> set (index_keys p) \<longleftrightarrow> has_sku s p"
  by (force simp: index_keys_def has_sku_iff image_iff)

lemma map_sku_set_positional_stock:
  "map sku (set_positional_stock s n vs) = map sku vs"
  by (induction vs) auto

lemma index_keys_set_positional_stock:
  "index_keys (p\<lparr>variants := set_positional_stock s n (variants p)\<rparr>) = index_keys p"
proof -
  have "set_positional_stock s n (variants p) = [] \<longleftrightarrow> variants p = []"
    by (cases "variants p") auto
  then show ?thesis by (simp add: index_keys_def map_sku_set_positional_stock)
qed

lemma stock_write_not_refused:
  "\<not> duplicate_key others p (p\<lparr>variants := set_positional_stock s n (variants p)\<rparr>)"
  by (rule no_new_key) (simp add: index_keys_set_positional_stock)

text \<open>
  A pull is refused just when it empties the list and another document carries the key
  null.
\<close>

lemma pull_refused_iff:
  assumes "has_sku s p"
  shows "duplicate_key others p (p\<lparr>variants := pull_sku s (variants p)\<rparr>) \<longleftrightarrow>
           pull_sku s (variants p) = [] \<and> list_ex (\<lambda>q. None \<in> set (index_keys q)) others"
proof (cases "pull_sku s (variants p) = []")
  case True
  then have all: "\<forall>v\<in>set (variants p). sku v = Some s"
    by (simp add: pull_sku_def filter_empty_conv)
  from assms have ne: "variants p \<noteq> []" by (auto simp: has_sku_iff)
  from all ne have "None \<notin> set (index_keys p)" by (auto simp: index_keys_def)
  with True show ?thesis by (simp add: duplicate_key_iff index_keys_def list_ex_iff)
next
  case False
  then have "set (index_keys (p\<lparr>variants := pull_sku s (variants p)\<rparr>)) \<subseteq> set (index_keys p)"
    by (auto simp: index_keys_def pull_sku_def)
  then have "\<not> duplicate_key others p (p\<lparr>variants := pull_sku s (variants p)\<rparr>)"
    by (rule no_new_key)
  with False show ?thesis by simp
qed

lemma index_holds_others:
  assumes "index_holds (pre @ p # post)" "k \<in> set (index_keys p)"
  shows "\<not> list_ex (\<lambda>q. k \<in> set (index_keys q)) (pre @ post)"
  using assms by (auto simp: index_holds_def list_ex_iff)

lemma set_positional_stock_first:
  "\<forall>w\<in>set ys. sku w \<noteq> Some s \<Longrightarrow> sku v = Some s \<Longrightarrow>
   set_positional_stock s n (ys @ v # zs) = ys @ v\<lparr>stock := Some n\<rparr> # zs"
  by (induction ys) auto


lemma sku_in_store_iff: "sku_in_store s st \<longleftrightarrow> (\<exists>p\<in>set st. has_sku s p)"
  by (simp add: sku_in_store_def list_ex_iff)

lemma sku_count_append:
  "sku_count s (xs @ ys) = sku_count s xs + sku_count s ys"
  by (simp add: sku_count_def all_skus_def)

lemma sku_count_Cons:
  "sku_count s (p # ps) = length (filter (\<lambda>v. sku v = Some s) (variants p)) + sku_count s ps"
  by (simp add: sku_count_def all_skus_def filter_map comp_def)

lemma sku_count_zero_iff:
  "sku_count s st = 0 \<longleftrightarrow> (\<forall>q\<in>set st. \<not> has_sku s q)"
  by (induction st) (auto simp: sku_count_Cons has_sku_iff filter_empty_conv sku_count_def all_skus_def)

lemma sku_in_store_iff_count:
  "sku_in_store s st \<longleftrightarrow> 0 < sku_count s st"
  using sku_count_zero_iff [of s st] by (auto simp: sku_in_store_iff)

lemma first_product_with_sku:
  assumes "sku_in_store s st"
  obtains pre p post where "st = pre @ p # post" "\<forall>q\<in>set pre. \<not> has_sku s q" "has_sku s p"
  using assms split_list_first_prop [of st "has_sku s"]
  by (auto simp: sku_in_store_iff)

lemma first_variant_with_sku:
  assumes "has_sku s p"
  obtains ys v zs where "variants p = ys @ v # zs" "\<forall>w\<in>set ys. sku w \<noteq> Some s" "sku v = Some s"
  using assms split_list_first_prop [of "variants p" "\<lambda>v. sku v = Some s"]
  by (auto simp: has_sku_iff)


text \<open>What the three variant routes do at the document the filter selects.\<close>

lemma updateVariantStock_absent:
  "\<not> sku_in_store s st \<Longrightarrow>
   updateVariantStock indexed s n st =
     (\<lparr>status = 404, body = Error ''Variant not found''\<rparr>, st)"
  by (simp add: updateVariantStock_def sku_in_store_def updateOne_no_match)

lemma updateVariantStock_present:
  assumes "\<forall>q\<in>set pre. \<not> has_sku s q" "variants p = ys @ v # zs"
    "\<forall>w\<in>set ys. sku w \<noteq> Some s" "sku v = Some s"
  shows "updateVariantStock indexed s n (pre @ p # post) =
           (if stock v = Some n
            then \<lparr>status = 404, body = Error ''Variant not found''\<rparr>
            else \<lparr>status = 200, body = Message ''Variant stock updated successfully''\<rparr>,
            pre @ p\<lparr>variants := ys @ v\<lparr>stock := Some n\<rparr> # zs\<rparr> # post)"
proof -
  have p: "has_sku s p" using assms(2,4) by (simp add: has_sku_iff)
  have same: "p\<lparr>variants := ys @ v\<lparr>stock := Some n\<rparr> # zs\<rparr> = p \<longleftrightarrow> stock v = Some n"
  proof
    assume "p\<lparr>variants := ys @ v\<lparr>stock := Some n\<rparr> # zs\<rparr> = p"
    then have "variants (p\<lparr>variants := ys @ v\<lparr>stock := Some n\<rparr> # zs\<rparr>) = variants p" by simp
    then have "v\<lparr>stock := Some n\<rparr> = v" by (simp add: assms(2))
    then have "stock (v\<lparr>stock := Some n\<rparr>) = stock v" by simp
    then show "stock v = Some n" by simp
  next
    assume "stock v = Some n"
    then have "v\<lparr>stock := Some n\<rparr> = v" by simp
    then show "p\<lparr>variants := ys @ v\<lparr>stock := Some n\<rparr> # zs\<rparr> = p"
      using assms(2) by simp
  qed
  have free: "\<not> duplicate_key (pre @ post) p (p\<lparr>variants := set_positional_stock s n (variants p)\<rparr>)"
    by (rule stock_write_not_refused)
  have "updateOne indexed (has_sku s)
          (\<lambda>p. p\<lparr>variants := set_positional_stock s n (variants p)\<rparr>) (pre @ p # post) =
        Inr (\<lparr>matchedCount = 1, modifiedCount = (if stock v = Some n then 0 else 1)\<rparr>,
             pre @ p\<lparr>variants := ys @ v\<lparr>stock := Some n\<rparr> # zs\<rparr> # post)"
    using free same
    by (simp add: updateOne_first_match [OF assms(1) p] assms(2)
        set_positional_stock_first [OF assms(3,4)])
  then show ?thesis by (simp add: updateVariantStock_def)
qed

lemma removeVariantBySku_absent:
  "\<not> sku_in_store s st \<Longrightarrow>
   removeVariantBySku indexed s st =
     (\<lparr>status = 404, body = Error ''Variant not found''\<rparr>, st)"
  by (simp add: removeVariantBySku_def sku_in_store_def updateOne_no_match)

lemma removeVariantBySku_present:
  assumes "\<forall>q\<in>set pre. \<not> has_sku s q" "has_sku s p"
  shows "removeVariantBySku indexed s (pre @ p # post) =
           (if indexed \<and> pull_sku s (variants p) = [] \<and>
               list_ex (\<lambda>q. None \<in> set (index_keys q)) (pre @ post)
            then (\<lparr>status = 500, body = ErrorMessage DuplicateKey\<rparr>, pre @ p # post)
            else (\<lparr>status = 200, body = Message ''Variant deleted successfully''\<rparr>,
                  pre @ p\<lparr>variants := pull_sku s (variants p)\<rparr> # post))"
proof -
  from assms(2) obtain v where "v \<in> set (variants p)" "sku v = Some s"
    by (auto simp: has_sku_iff)
  then have "length (pull_sku s (variants p)) < length (variants p)"
    unfolding pull_sku_def by (intro length_filter_less [of v]) simp_all
  then have "variants (p\<lparr>variants := pull_sku s (variants p)\<rparr>) \<noteq> variants p" by auto
  then have "p\<lparr>variants := pull_sku s (variants p)\<rparr> \<noteq> p" by metis
  then show ?thesis
    by (simp add: removeVariantBySku_def updateOne_first_match [OF assms]
        pull_refused_iff [OF assms(2)])
qed

lemma addVariant_bad_id:
  "castObjectId pid = None \<Longrightarrow>
   addVariant indexed castObjectId newid pid d st =
     (\<lparr>status = 400, body = ErrorMessage CastError\<rparr>, st)"
  by (simp add: addVariant_def)

lemma addVariant_absent:
  "castObjectId pid = Some oid \<Longrightarrow> \<forall>q\<in>set st. p_id q \<noteq> oid \<Longrightarrow>
   addVariant indexed castObjectId newid pid d st =
     (\<lparr>status = 404, body = Error ''Product not found''\<rparr>, st)"
  by (simp add: addVariant_def updateOne_no_match list_ex_iff)

lemma addVariant_present:
  assumes "castObjectId pid = Some oid" "\<forall>q\<in>set pre. p_id q \<noteq> oid" "p_id p = oid"
  shows "addVariant indexed castObjectId newid pid d (pre @ p # post) =
           (if indexed \<and>
               duplicate_key (pre @ post) p (p\<lparr>variants := variants p @ [cast_variant newid d]\<rparr>)
            then (\<lparr>status = 400, body = ErrorMessage DuplicateKey\<rparr>, pre @ p # post)
            else (\<lparr>status = 201, body = Message ''Variant added successfully''\<rparr>,
                  pre @ p\<lparr>variants := variants p @ [cast_variant newid d]\<rparr> # post))"
proof -
  have "variants (p\<lparr>variants := variants p @ [cast_variant newid d]\<rparr>) \<noteq> variants p" by simp
  then have "p\<lparr>variants := variants p @ [cast_variant newid d]\<rparr> \<noteq> p" by metis
  then show ?thesis
    using assms
    by (simp add: addVariant_def updateOne_first_match [of pre "\<lambda>p. p_id p = oid" p])
qed

text \<open>A push of a sku that no document holds is not refused.\<close>

lemma fresh_push_not_refused:
  assumes "sku v = Some k" "\<forall>q\<in>set others. \<not> has_sku k q"
  shows "\<not> duplicate_key others p (p\<lparr>variants := variants p @ [v]\<rparr>)"
proof -
  have "\<And>x. x \<in> set (index_keys (p\<lparr>variants := variants p @ [v]\<rparr>)) \<Longrightarrow>
          x \<notin> set (index_keys p) \<Longrightarrow> x = Some k"
    using assms(1) by (auto simp: index_keys_def split: if_splits)
  moreover have "\<And>q. q \<in> set others \<Longrightarrow> Some k \<notin> set (index_keys q)"
    using assms(2) by (simp add: index_keys_has_sku)
  ultimately show ?thesis by (auto simp: duplicate_key_iff)
qed

text \<open>
  With the index built, every write that is accepted leaves the index holding: the
  states of an indexed store are those of which \<open>index_holds\<close>.
\<close>

lemma index_holds_write_first:
  assumes "index_holds st" "write_first True flt upd [] st = Inr (r, st')"
  shows "index_holds st'"
proof (cases "list_ex flt st")
  case False
  with assms show ?thesis by (simp add: write_first_no_match)
next
  case True
  then obtain pre d post where st: "st = pre @ d # post"
    and pre: "\<forall>q\<in>set pre. \<not> flt q" and d: "flt d"
    by (rule first_match_split)
  from assms(2) have free: "\<not> duplicate_key (pre @ post) d (upd d)"
    and st': "st' = pre @ upd d # post"
    by (auto simp: st write_first_first_match [OF pre d, of True upd "[]"] split: if_splits)
  have "\<And>k q. k \<in> set (index_keys (upd d)) \<Longrightarrow> q \<in> set pre \<union> set post \<Longrightarrow>
          k \<notin> set (index_keys q)"
  proof
    fix k q
    assume k: "k \<in> set (index_keys (upd d))" and q: "q \<in> set pre \<union> set post"
      and kq: "k \<in> set (index_keys q)"
    from free k q kq have "k \<in> set (index_keys d)" by (auto simp: duplicate_key_iff)
    with assms(1) have "\<not> list_ex (\<lambda>q. k \<in> set (index_keys q)) (pre @ post)"
      unfolding st by (rule index_holds_others)
    with q kq show False by (auto simp: list_ex_iff)
  qed
  with assms(1) show ?thesis
    unfolding st st' index_holds_def by auto
qed

section \<open>Stock update: frame and status\<close>

text \<open>
  C1. In a store that holds exactly one Variant with sku \<open>s\<close>, the stock route leaves
  the collection as it was except for the \<open>stock\<close> field of that Variant: the products
  before and after its owner, the owner's other fields (its \<open>updated_at\<close> too), and the
  sibling variants before and after the matched one are all as before. The index has no
  part in it: a stock write changes no key.
\<close>

theorem updateVariantStock_frame:
  assumes "sku_count s st = 1"
  shows "\<exists>pre p post ys v zs.
           st = pre @ p # post \<and> variants p = ys @ v # zs \<and> sku v = Some s \<and>
           (\<forall>q\<in>set pre \<union> set post. \<not> has_sku s q) \<and>
           (\<forall>w\<in>set ys \<union> set zs. sku w \<noteq> Some s) \<and>
           snd (updateVariantStock indexed s n st) =
             pre @ p\<lparr>variants := ys @ v\<lparr>stock := Some n\<rparr> # zs\<rparr> # post"
proof -
  from assms have "sku_in_store s st" by (simp add: sku_in_store_iff_count)
  then obtain pre p post where st: "st = pre @ p # post"
    and pre: "\<forall>q\<in>set pre. \<not> has_sku s q" and p: "has_sku s p"
    by (rule first_product_with_sku)
  from p obtain ys v zs where vs: "variants p = ys @ v # zs"
    and ys: "\<forall>w\<in>set ys. sku w \<noteq> Some s" and v: "sku v = Some s"
    by (rule first_variant_with_sku)
  have cnt: "length (filter (\<lambda>v. sku v = Some s) (variants p)) + sku_count s post = 1"
    using assms pre sku_count_zero_iff [of s pre] by (simp add: st sku_count_append sku_count_Cons)
  have "length (filter (\<lambda>v. sku v = Some s) (variants p)) =
          Suc (length (filter (\<lambda>v. sku v = Some s) zs))"
    using ys v by (simp add: vs filter_empty_conv [THEN iffD2])
  with cnt have post0: "sku_count s post = 0" and zs0: "filter (\<lambda>v. sku v = Some s) zs = []"
    by simp_all
  from post0 have post: "\<forall>q\<in>set post. \<not> has_sku s q" by (simp add: sku_count_zero_iff)
  from zs0 have zs: "\<forall>w\<in>set zs. sku w \<noteq> Some s" by (simp add: filter_empty_conv)
  have "snd (updateVariantStock indexed s n st) =
          pre @ p\<lparr>variants := ys @ v\<lparr>stock := Some n\<rparr> # zs\<rparr> # post"
    by (simp add: st updateVariantStock_present [OF pre vs ys v])
  with st vs v pre post ys zs show ?thesis by blast
qed

theorem updateVariantStock_frame_witness:
  "sku_count ''TS-BLUE-L'' catalog = 1 \<and>
   (\<exists>pre p post ys v zs.
      catalog = pre @ p # post \<and> variants p = ys @ v # zs \<and> sku v = Some ''TS-BLUE-L'' \<and>
      (\<forall>q\<in>set pre \<union> set post. \<not> has_sku ''TS-BLUE-L'' q) \<and>
      (\<forall>w\<in>set ys \<union> set zs. sku w \<noteq> Some ''TS-BLUE-L'') \<and>
      snd (updateVariantStock True ''TS-BLUE-L'' 3 catalog) =
        pre @ p\<lparr>variants := ys @ v\<lparr>stock := Some 3\<rparr> # zs\<rparr> # post)"
proof -
  have h: "sku_count ''TS-BLUE-L'' catalog = 1"
    by (simp add: sku_count_def all_skus_def catalog_def tshirt_def laptop_def red_m_def
        blue_l_def silver_15_def)
  from updateVariantStock_frame [OF h, of True 3] h show ?thesis by simp
qed

text \<open>
  C2. The claim: the stock route answers NotFound (404) exactly when no Variant has the
  sku, whatever the new stock. On the worked catalog the Variant \<^verbatim>\<open>TS-RED-M\<close> is there
  with stock 10, and setting its stock to 10 is answered with 404: the route tests
  \<open>modifiedCount\<close>, which is 0 for an update that changes nothing.
\<close>

theorem updateVariantStock_same_stock_not_found:
  "sku_in_store ''TS-RED-M'' catalog \<and>
   updateVariantStock indexed ''TS-RED-M'' 10 catalog =
     (\<lparr>status = 404, body = Error ''Variant not found''\<rparr>, catalog)"
proof -
  have "updateVariantStock indexed ''TS-RED-M'' 10 ([] @ tshirt # [laptop]) =
          (\<lparr>status = 404, body = Error ''Variant not found''\<rparr>,
           [] @ tshirt\<lparr>variants := [] @ red_m\<lparr>stock := Some 10\<rparr> # [blue_l]\<rparr> # [laptop])"
    by (subst updateVariantStock_present [where ys = "[]" and v = red_m and zs = "[blue_l]"])
       (simp_all add: tshirt_def red_m_def)
  moreover have "tshirt\<lparr>variants := [red_m\<lparr>stock := Some 10\<rparr>, blue_l]\<rparr> = tshirt"
    by (simp add: tshirt_def red_m_def)
  moreover have "sku_in_store ''TS-RED-M'' catalog"
    by (simp add: sku_in_store_def has_sku_def catalog_def tshirt_def red_m_def)
  ultimately show ?thesis by (simp add: catalog_def)
qed

text \<open>
  C3. The claim: a negative new stock is refused with ValidationError (400) and the store
  stays as it was. On the worked catalog the stock of \<^verbatim>\<open>TS-RED-M\<close> is set to -5 and the
  answer is 200: \<^verbatim>\<open>updateOne\<close> is called without \<^verbatim>\<open>runValidators\<close>, so the schema's
  \<^verbatim>\<open>min: 0\<close> (line 19) is not checked on this route.
\<close>

theorem updateVariantStock_negative_stock_accepted:
  "updateVariantStock indexed ''TS-RED-M'' (- 5) catalog =
     (\<lparr>status = 200, body = Message ''Variant stock updated successfully''\<rparr>,
      [tshirt\<lparr>variants := [red_m\<lparr>stock := Some (- 5)\<rparr>, blue_l]\<rparr>, laptop])"
proof -
  have "updateVariantStock indexed ''TS-RED-M'' (- 5) ([] @ tshirt # [laptop]) =
          (\<lparr>status = 200, body = Message ''Variant stock updated successfully''\<rparr>,
           [] @ tshirt\<lparr>variants := [] @ red_m\<lparr>stock := Some (- 5)\<rparr> # [blue_l]\<rparr> # [laptop])"
    by (subst updateVariantStock_present [where ys = "[]" and v = red_m and zs = "[blue_l]"])
       (simp_all add: tshirt_def red_m_def)
  then show ?thesis by (simp add: catalog_def)
qed

section \<open>Adding and removing variants\<close>

text \<open>
  C4. The claim: adding a variant fails with ValidationError (400), and appends nothing,
  when the draft lacks a required field or its sku is already in the store. On the worked
  catalog a draft without \<open>color\<close> is appended and answered with 201, and so is a draft
  whose sku \<^verbatim>\<open>TS-RED-M\<close> the same product already holds: the route pushes the body with
  \<^verbatim>\<open>updateOne\<close>, which runs none of the schema's validators (lines 17-20), and it makes
  no sku lookup of its own. The index, built or not, refuses neither: the first draft
  brings a key that no document has, the second a key that its own document has already.
\<close>

theorem addVariant_unchecked_draft:
  "d_color no_color_draft = None \<and>
   addVariant indexed oid24 ''64b0000000000000000000b1'' ''64b000000000000000000001''
       no_color_draft catalog =
     (\<lparr>status = 201, body = Message ''Variant added successfully''\<rparr>,
      [tshirt\<lparr>variants :=
         [red_m, blue_l, cast_variant ''64b0000000000000000000b1'' no_color_draft]\<rparr>, laptop]) \<and>
   has_sku ''TS-RED-M'' tshirt \<and> d_sku taken_sku_draft = Some ''TS-RED-M'' \<and>
   addVariant indexed oid24 ''64b0000000000000000000b2'' ''64b000000000000000000001''
       taken_sku_draft catalog =
     (\<lparr>status = 201, body = Message ''Variant added successfully''\<rparr>,
      [tshirt\<lparr>variants :=
         [red_m, blue_l, cast_variant ''64b0000000000000000000b2'' taken_sku_draft]\<rparr>, laptop])"
  by (simp add: addVariant_def updateOne_def duplicate_key_def index_keys_def oid24_def
      hex_digit_def has_sku_def no_color_draft_def taken_sku_draft_def cast_variant_def
      catalog_def tshirt_def laptop_def red_m_def blue_l_def silver_15_def)




text \<open>
  C8. For a draft whose sku \<open>k\<close> is not yet in a store of all different skus, adding the
  draft and then deleting by \<open>k\<close> gives back the store as it was, so every product's
  variant list is as before; and when the add is answered with 201, the delete is
  answered with 200. The store is one that exists: when its index is built, the index
  holds of it. (The proof makes no use of the skus being all different.)
\<close>

theorem addVariant_removeVariantBySku_round_trip:
  assumes "sku_unique st" "d_sku d = Some k" "\<not> sku_in_store k st"
    and "indexed \<longrightarrow> index_holds st"
  shows "snd (removeVariantBySku indexed k
            (snd (addVariant indexed castObjectId newid pid d st))) = st \<and>
         map variants (snd (removeVariantBySku indexed k
            (snd (addVariant indexed castObjectId newid pid d st)))) = map variants st \<and>
         (status (fst (addVariant indexed castObjectId newid pid d st)) = 201 \<longrightarrow>
            sku_in_store k (snd (addVariant indexed castObjectId newid pid d st)) \<and>
            status (fst (removeVariantBySku indexed k
              (snd (addVariant indexed castObjectId newid pid d st)))) = 200)"
proof (cases "castObjectId pid")
  case None
  then show ?thesis
    using assms(3) by (simp add: addVariant_bad_id removeVariantBySku_absent)
next
  case (Some oid)
  show ?thesis
  proof (cases "\<exists>q\<in>set st. p_id q = oid")
    case False
    then show ?thesis
      using assms(3) Some by (simp add: addVariant_absent removeVariantBySku_absent)
  next
    case True
    then obtain pre p post where st: "st = pre @ p # post"
      and pre: "\<forall>q\<in>set pre. p_id q \<noteq> oid" and p: "p_id p = oid"
      using split_list_first_prop [of st "\<lambda>q. p_id q = oid"] by auto
    let ?v = "cast_variant newid d"
    let ?p' = "p\<lparr>variants := variants p @ [?v]\<rparr>"
    from assms(3) have fresh: "\<forall>q\<in>set pre. \<not> has_sku k q" "\<not> has_sku k p"
      and others: "\<forall>q\<in>set (pre @ post). \<not> has_sku k q"
      by (simp_all add: st sku_in_store_iff)
    have v: "sku ?v = Some k" using assms(2) by (simp add: cast_variant_def)
    have "\<not> duplicate_key (pre @ post) p ?p'"
      using v others by (rule fresh_push_not_refused)
    then have add: "addVariant indexed castObjectId newid pid d st =
                 (\<lparr>status = 201, body = Message ''Variant added successfully''\<rparr>,
                  pre @ ?p' # post)"
      unfolding st
      using addVariant_present [of castObjectId pid oid pre p indexed newid d post] Some pre p
      by simp
    have p': "has_sku k ?p'"
      using v by (simp add: has_sku_iff)
    have pulled: "pull_sku k (variants ?p') = variants p"
      using fresh(2) v by (simp add: pull_sku_def has_sku_iff)
    then have restored: "?p'\<lparr>variants := pull_sku k (variants ?p')\<rparr> = p" by simp
    have accepted: "\<not> (indexed \<and> pull_sku k (variants ?p') = [] \<and>
                     list_ex (\<lambda>q. None \<in> set (index_keys q)) (pre @ post))"
    proof
      assume r: "indexed \<and> pull_sku k (variants ?p') = [] \<and>
                 list_ex (\<lambda>q. None \<in> set (index_keys q)) (pre @ post)"
      with pulled have "None \<in> set (index_keys p)" by (simp add: index_keys_def)
      moreover from r assms(4) have "index_holds (pre @ p # post)" by (simp add: st)
      ultimately have "\<not> list_ex (\<lambda>q. None \<in> set (index_keys q)) (pre @ post)"
        by (rule index_holds_others [rotated])
      with r show False by simp
    qed
    have rem: "removeVariantBySku indexed k (pre @ ?p' # post) =
                 (\<lparr>status = 200, body = Message ''Variant deleted successfully''\<rparr>, st)"
      using accepted restored
      by (simp add: removeVariantBySku_present [OF fresh(1) p'] st)
    have "sku_in_store k (pre @ ?p' # post)"
      using p' by (simp add: sku_in_store_iff)
    with add rem show ?thesis by simp
  qed
qed

theorem addVariant_removeVariantBySku_round_trip_witness:
  "sku_unique catalog \<and> d_sku green_s = Some ''TS-GREEN-S'' \<and>
   \<not> sku_in_store ''TS-GREEN-S'' catalog \<and> index_holds catalog \<and>
   status (fst (addVariant True oid24 ''64b0000000000000000000b3'' ''64b000000000000000000001''
      green_s catalog)) = 201 \<and>
   snd (removeVariantBySku True ''TS-GREEN-S''
      (snd (addVariant True oid24 ''64b0000000000000000000b3'' ''64b000000000000000000001''
         green_s catalog))) = catalog \<and>
   status (fst (removeVariantBySku True ''TS-GREEN-S''
      (snd (addVariant True oid24 ''64b0000000000000000000b3'' ''64b000000000000000000001''
         green_s catalog)))) = 200"
proof -
  have h1: "sku_unique catalog"
    by (simp add: sku_unique_def all_skus_def catalog_def tshirt_def laptop_def red_m_def
        blue_l_def silver_15_def)
  have h2: "d_sku green_s = Some ''TS-GREEN-S''" by (simp add: green_s_def)
  have h3: "\<not> sku_in_store ''TS-GREEN-S'' catalog"
    by (simp add: sku_in_store_def has_sku_def catalog_def tshirt_def laptop_def red_m_def
        blue_l_def silver_15_def)
  have h4: "index_holds catalog"
    by (simp add: index_holds_def index_keys_def catalog_def tshirt_def laptop_def red_m_def
        blue_l_def silver_15_def)
  have h5: "status (fst (addVariant True oid24 ''64b0000000000000000000b3''
      ''64b000000000000000000001'' green_s catalog)) = 201"
    by (simp add: addVariant_def updateOne_def duplicate_key_def index_keys_def oid24_def
        hex_digit_def cast_variant_def green_s_def catalog_def tshirt_def laptop_def red_m_def
        blue_l_def silver_15_def)
  from h4 have h4': "True \<longrightarrow> index_holds catalog" by simp
  from addVariant_removeVariantBySku_round_trip [OF h1 h2 h3 h4', of oid24
      "''64b0000000000000000000b3''" "''64b000000000000000000001''"] h1 h2 h3 h4 h5
  show ?thesis by simp
qed


text \<open>The first of these stores is one that the add route reaches when the index is not built.\<close>

lemma shared_sku_reached:
  "snd (addVariant False oid24 ''64b0000000000000000000a8'' ''64b000000000000000000002''
         taken_sku_draft [laptop, twice_red]) = [laptop_red, twice_red]"
  by (simp add: addVariant_def updateOne_def oid24_def hex_digit_def laptop_red_def laptop_def)



section \<open>Timestamps\<close>

lemma updated_at_set_fields:
  "updated_at (set_fields u p) = (case u_updated_at u of None \<Rightarrow> updated_at p | Some t \<Rightarrow> t)"
  by (simp add: set_fields_def)

lemma updateVariantStock_updated_at:
  "map updated_at (snd (updateVariantStock indexed s n st)) = map updated_at st"
proof (cases "updateOne indexed (has_sku s)
    (\<lambda>p. p\<lparr>variants := set_positional_stock s n (variants p)\<rparr>) st")
  case (Inl e)
  then show ?thesis by (simp add: updateVariantStock_def)
next
  case (Inr rs)
  then obtain r st' where "updateOne indexed (has_sku s)
      (\<lambda>p. p\<lparr>variants := set_positional_stock s n (variants p)\<rparr>) st = Inr (r, st')"
    by (cases rs) simp
  moreover from this have "map updated_at st' = map updated_at st"
    by (rule updateOne_keeps [rotated]) simp
  ultimately show ?thesis by (simp add: updateVariantStock_def)
qed

lemma removeVariantBySku_updated_at:
  "map updated_at (snd (removeVariantBySku indexed s st)) = map updated_at st"
proof (cases "updateOne indexed (has_sku s) (\<lambda>p. p\<lparr>variants := pull_sku s (variants p)\<rparr>) st")
  case (Inl e)
  then show ?thesis by (simp add: removeVariantBySku_def)
next
  case (Inr rs)
  then obtain r st' where "updateOne indexed (has_sku s)
      (\<lambda>p. p\<lparr>variants := pull_sku s (variants p)\<rparr>) st = Inr (r, st')"
    by (cases rs) simp
  moreover from this have "map updated_at st' = map updated_at st"
    by (rule updateOne_keeps [rotated]) simp
  ultimately show ?thesis by (simp add: removeVariantBySku_def)
qed

lemma addVariant_updated_at:
  "map updated_at (snd (addVariant indexed castObjectId newid pid d st)) = map updated_at st"
proof (cases "castObjectId pid")
  case None
  then show ?thesis by (simp add: addVariant_def)
next
  case (Some oid)
  show ?thesis
  proof (cases "updateOne indexed (\<lambda>p. p_id p = oid)
      (\<lambda>p. p\<lparr>variants := variants p @ [cast_variant newid d]\<rparr>) st")
    case (Inl e)
    with Some show ?thesis by (simp add: addVariant_def)
  next
    case (Inr rs)
    then obtain r st' where "updateOne indexed (\<lambda>p. p_id p = oid)
        (\<lambda>p. p\<lparr>variants := variants p @ [cast_variant newid d]\<rparr>) st = Inr (r, st')"
      by (cases rs) simp
    moreover from this have "map updated_at st' = map updated_at st"
      by (rule updateOne_keeps [rotated]) simp
    ultimately show ?thesis using Some by (simp add: addVariant_def)
  qed
qed

lemma updateProduct_updated_at:
  assumes "u_updated_at u = None"
  shows "map updated_at (snd (updateProduct indexed castObjectId pid u st)) = map updated_at st"
proof (cases "castObjectId pid")
  case None
  then show ?thesis by (simp add: updateProduct_def)
next
  case (Some oid)
  show ?thesis
  proof (cases "findOneAndUpdate indexed (\<lambda>p. p_id p = oid) (set_fields u) st")
    case (Inl e)
    with Some show ?thesis by (simp add: updateProduct_def)
  next
    case (Inr rs)
    then obtain r st' where
      "findOneAndUpdate indexed (\<lambda>p. p_id p = oid) (set_fields u) st = Inr (r, st')"
      by (cases rs) simp
    moreover from this have "map updated_at st' = map updated_at st"
      by (rule findOneAndUpdate_keeps [rotated]) (simp add: updated_at_set_fields assms)
    ultimately show ?thesis using Some by (simp add: updateProduct_def split: option.splits)
  qed
qed

lemma updateProduct_document:
  assumes "body (fst (updateProduct indexed castObjectId pid u st)) = ProductDoc p'"
  shows "\<exists>p\<in>set st. p' = set_fields u p"
proof (cases "castObjectId pid")
  case None
  with assms show ?thesis by (simp add: updateProduct_def)
next
  case (Some oid)
  show ?thesis
  proof (cases "findOneAndUpdate indexed (\<lambda>p. p_id p = oid) (set_fields u) st")
    case (Inl e)
    with Some assms show ?thesis by (simp add: updateProduct_def)
  next
    case (Inr rs)
    then obtain r st' where
      f: "findOneAndUpdate indexed (\<lambda>p. p_id p = oid) (set_fields u) st = Inr (r, st')"
      by (cases rs) simp
    with Some assms have "r = Some p'"
      by (cases r) (simp_all add: updateProduct_def)
    with f show ?thesis by (auto dest: findOneAndUpdate_Some)
  qed
qed

text \<open>
  C6. The claim: whenever a mutating operation changes a Product or one of its Variants,
  the Product's \<open>updated_at\<close> advances. On the worked catalog the stock route changes the
  first product (the stock of \<^verbatim>\<open>TS-RED-M\<close> goes from 10 to 3) and its \<open>updated_at\<close> is
  what it was.
\<close>

theorem updated_at_not_advanced:
  "snd (updateVariantStock True ''TS-RED-M'' 3 catalog) ! 0 \<noteq> catalog ! 0 \<and>
   \<not> updated_at (catalog ! 0) <
       updated_at (snd (updateVariantStock True ''TS-RED-M'' 3 catalog) ! 0)"
  by (simp add: has_sku_def updateVariantStock_def updateOne_def duplicate_key_def
      index_keys_def catalog_def tshirt_def laptop_def red_m_def blue_l_def silver_15_def)

text \<open>
  C6, as the routes have it: the schema gives \<open>updated_at\<close> a default at creation (line
  38) and has no timestamp option, and no route writes the field. The three variant
  routes leave the \<open>updated_at\<close> of every product as it was; the update route leaves it as
  it was when the body carries no \<open>updated_at\<close>, and otherwise the document it returns
  has the body's value.
\<close>

theorem updated_at_only_from_body:
  "map updated_at (snd (updateVariantStock indexed s n st)) = map updated_at st \<and>
   map updated_at (snd (addVariant indexed castObjectId newid pid d st)) = map updated_at st \<and>
   map updated_at (snd (removeVariantBySku indexed s st)) = map updated_at st \<and>
   (u_updated_at u = None \<longrightarrow>
      map updated_at (snd (updateProduct indexed castObjectId pid u st)) = map updated_at st) \<and>
   (u_updated_at u = Some t \<longrightarrow>
      body (fst (updateProduct indexed castObjectId pid u st)) = ProductDoc p' \<longrightarrow>
      updated_at p' = t)"
proof (intro conjI impI)
  show "map updated_at (snd (updateVariantStock indexed s n st)) = map updated_at st"
    by (rule updateVariantStock_updated_at)
  show "map updated_at (snd (addVariant indexed castObjectId newid pid d st)) = map updated_at st"
    by (rule addVariant_updated_at)
  show "map updated_at (snd (removeVariantBySku indexed s st)) = map updated_at st"
    by (rule removeVariantBySku_updated_at)
next
  assume "u_updated_at u = None"
  then show "map updated_at (snd (updateProduct indexed castObjectId pid u st)) =
               map updated_at st"
    by (rule updateProduct_updated_at)
next
  assume some: "u_updated_at u = Some t"
    and doc: "body (fst (updateProduct indexed castObjectId pid u st)) = ProductDoc p'"
  from doc obtain p where "p' = set_fields u p" by (auto dest: updateProduct_document)
  with some show "updated_at p' = t" by (simp add: updated_at_set_fields)
qed

theorem updated_at_only_from_body_witness:
  "u_updated_at rename_tee = None \<and>
   u_updated_at (rename_tee\<lparr>u_updated_at := Some 5000\<rparr>) = Some 5000 \<and>
   body (fst (updateProduct True oid24 ''64b000000000000000000001''
      (rename_tee\<lparr>u_updated_at := Some 5000\<rparr>) catalog)) =
     ProductDoc (tshirt\<lparr>name := ''Tee'', updated_at := 5000\<rparr>) \<and>
   snd (updateProduct True oid24 ''64b000000000000000000001'' rename_tee catalog) =
     [tshirt\<lparr>name := ''Tee''\<rparr>, laptop] \<and>
   map updated_at (snd (updateProduct True oid24 ''64b000000000000000000001'' rename_tee catalog)) =
     map updated_at catalog \<and>
   updated_at (tshirt\<lparr>name := ''Tee'', updated_at := 5000\<rparr>) = 5000"
proof -
  have h1: "u_updated_at rename_tee = None" by (simp add: rename_tee_def)
  have h2: "u_updated_at (rename_tee\<lparr>u_updated_at := Some 5000\<rparr>) = Some 5000" by simp
  have h3: "body (fst (updateProduct True oid24 ''64b000000000000000000001''
      (rename_tee\<lparr>u_updated_at := Some 5000\<rparr>) catalog)) =
     ProductDoc (tshirt\<lparr>name := ''Tee'', updated_at := 5000\<rparr>)"
    by (simp add: updateProduct_def findOneAndUpdate_def duplicate_key_def index_keys_def
        oid24_def hex_digit_def catalog_def set_fields_def rename_tee_def tshirt_def laptop_def
        red_m_def blue_l_def silver_15_def)
  have h4: "snd (updateProduct True oid24 ''64b000000000000000000001'' rename_tee catalog) =
     [tshirt\<lparr>name := ''Tee''\<rparr>, laptop]"
    by (simp add: updateProduct_def findOneAndUpdate_def duplicate_key_def index_keys_def
        oid24_def hex_digit_def catalog_def set_fields_def rename_tee_def tshirt_def laptop_def
        red_m_def blue_l_def silver_15_def)
  from updated_at_only_from_body [of True "''TS-RED-M''" 3 catalog oid24
      "''64b0000000000000000000b3''" "''64b000000000000000000001''" green_s rename_tee]
  have "map updated_at (snd (updateProduct True oid24 ''64b000000000000000000001'' rename_tee catalog)) =
     map updated_at catalog"
    using h1 by blast
  moreover
  from updated_at_only_from_body [of True "''TS-RED-M''" 3 catalog oid24
      "''64b0000000000000000000b3''" "''64b000000000000000000001''" green_s
      "rename_tee\<lparr>u_updated_at := Some 5000\<rparr>" 5000
      "tshirt\<lparr>name := ''Tee'', updated_at := 5000\<rparr>"]
  have "updated_at (tshirt\<lparr>name := ''Tee'', updated_at := 5000\<rparr>) = 5000"
    using h2 h3 by blast
  ultimately show ?thesis using h1 h2 h3 h4 by blast
qed

section \<open>Reading\<close>

lemma getById_malformed:
  "castObjectId pid = None \<Longrightarrow>
   getById castObjectId pid st = \<lparr>status = 500, body = ErrorMessage CastError\<rparr>"
  by (simp add: getById_def)

lemma getById_no_match:
  "castObjectId pid = Some oid \<Longrightarrow> \<forall>p\<in>set st. p_id p \<noteq> oid \<Longrightarrow>
   getById castObjectId pid st = \<lparr>status = 404, body = Error ''Product not found''\<rparr>"
  by (simp add: getById_def find_None_iff [THEN iffD2])

lemma getVariants_malformed:
  "castObjectId pid = None \<Longrightarrow>
   getVariants castObjectId pid st = \<lparr>min_status = 400, min_body = MinError ''Invalid product ID''\<rparr>"
  by (simp add: getVariants_def)

text \<open>
  C7. The claim: an id that is not well-formed is answered with 400, not 500, and a
  well-formed id that matches no Product with 404. The text \<^verbatim>\<open>badid\<close> is not the text of
  an ObjectId, and \<^verbatim>\<open>GET /products/badid\<close> is answered with 500: the \<^verbatim>\<open>catch\<close> branch
  of this route (line 117) sends 500 for every error, the failed cast of the id among
  them. The route \<^verbatim>\<open>GET /products/:id/variants\<close> of the minimal variant answers the same
  id with 400.
\<close>

theorem getById_malformed_id_500:
  "oid24 ''badid'' = None \<and>
   getById oid24 ''badid'' catalog = \<lparr>status = 500, body = ErrorMessage CastError\<rparr> \<and>
   getVariants oid24 ''badid'' [mug] =
     \<lparr>min_status = 400, min_body = MinError ''Invalid product ID''\<rparr>"
  by (simp add: oid24_def getById_def getVariants_def)

text \<open>
  C9. The claim: listing with no filter gives exactly the persisted products, and the
  empty sequence for the empty store, never sample data. The list route of the minimal
  variant answers the empty store with its three sample products.
\<close>

theorem list_products_minimal_sample_data:
  "list_products_minimal ([] :: string min_product list) =
     \<lparr>min_status = 200, min_body = MinProducts sampleProducts\<rparr> \<and>
   length (sampleProducts :: string min_product list) = 3 \<and>
   list_products_minimal ([] :: string min_product list) \<noteq>
     \<lparr>min_status = 200, min_body = MinProducts []\<rparr>"
  by (simp add: list_products_minimal_def sampleProducts_def)

text \<open>
  C9, as the routes have it: the list route of the full server gives exactly the
  persisted products in the store's order, so the empty sequence for the empty store;
  the list route of the minimal variant gives exactly the persisted products when there
  is at least one, and its sample products when the store is empty.
\<close>

theorem list_products_exact:
  "list_products (st :: 'oid collection) = \<lparr>status = 200, body = ProductDocs st\<rparr> \<and>
   list_products ([] :: 'oid collection) = \<lparr>status = 200, body = ProductDocs []\<rparr> \<and>
   ((mst :: 'oid min_product list) \<noteq> [] \<longrightarrow>
      list_products_minimal mst = \<lparr>min_status = 200, min_body = MinProducts mst\<rparr>) \<and>
   list_products_minimal ([] :: 'oid min_product list) =
     \<lparr>min_status = 200, min_body = MinProducts sampleProducts\<rparr>"
  by (simp add: list_products_def list_products_minimal_def)

theorem list_products_exact_witness:
  "[mug] \<noteq> [] \<and>
   list_products catalog = \<lparr>status = 200, body = ProductDocs [tshirt, laptop]\<rparr> \<and>
   list_products_minimal [mug] = \<lparr>min_status = 200, min_body = MinProducts [mug]\<rparr>"
proof -
  have h: "[mug] \<noteq> []" by simp
  from list_products_exact [of catalog "[mug]"] h show ?thesis
    by (simp add: catalog_def)
qed

end
